theory Spec2Isabelle
  imports Complex_Main "HOL-Library.Word"
begin

section \<open>JavaScript values of the worker\<close>

text \<open>
  The worker of \<^verbatim>\<open>src/api/index.js\<close> is a Cloudflare Workers module: one exported
  \<^verbatim>\<open>fetch\<close> that routes a request to five handlers. A JavaScript string is a
  sequence of 16-bit code units; \<open>js\<close> turns an ASCII literal of the source into one.
\<close>

type_synonym jschar = "16 word"
type_synonym jsstring = "jschar list"

definition js :: "string \<Rightarrow> jsstring" where
  "js s = map (\<lambda>c. of_nat (of_char c)) s"

text \<open>
  A \<^verbatim>\<open>File\<close> (or the \<^verbatim>\<open>Blob\<close> it is made of): its name, its size in bytes, its
  media type and its payload, which the worker never reads (an opaque handle).
\<close>

record jsfile =
  file_name :: jsstring
  file_size :: nat
  file_type :: jsstring
  file_data :: nat

record blob =
  blob_size :: nat
  blob_data :: nat

text \<open>
  The values the handlers hold in variables: what \<^verbatim>\<open>request.json()\<close> and
  \<^verbatim>\<open>formData.get\<close> return, and what is handed to \<^verbatim>\<open>JSON.stringify\<close>.
  \<open>Num q\<close> is a finite number, written by its decimal value.
\<close>

datatype jsval =
    Undefined
  | Null
  | Bool bool
  | Num rat
  | NaN
  | Infinity bool
  | Str jsstring
  | Arr "jsval list"
  | Obj "(jsstring \<times> jsval) list"
  | FileObj jsfile

text \<open>ToBoolean, as \<^verbatim>\<open>!x\<close>, \<^verbatim>\<open>x || d\<close> and \<^verbatim>\<open>if (x)\<close> apply it.\<close>

fun truthy :: "jsval \<Rightarrow> bool" where
  "truthy Undefined = False"
| "truthy Null = False"
| "truthy (Bool b) = b"
| "truthy (Num q) = (q \<noteq> 0)"
| "truthy NaN = False"
| "truthy (Infinity s) = True"
| "truthy (Str s) = (s \<noteq> [])"
| "truthy (Arr xs) = True"
| "truthy (Obj kvs) = True"
| "truthy (FileObj f) = True"

text \<open>\<^verbatim>\<open>a || b\<close>\<close>

definition js_or :: "jsval \<Rightarrow> jsval \<Rightarrow> jsval" where
  "js_or a b = (if truthy a then a else b)"

text \<open>
  Reading the property \<^verbatim>\<open>url\<close>, \<^verbatim>\<open>temporary\<close> or \<^verbatim>\<open>time\<close> of a parsed JSON
  value: an object gives its own entry, every other value that has properties gives
  \<^verbatim>\<open>undefined\<close> for these three names.
\<close>

fun get_prop :: "jsval \<Rightarrow> jsstring \<Rightarrow> jsval" where
  "get_prop (Obj kvs) k = (case map_of kvs k of Some v \<Rightarrow> v | None \<Rightarrow> Undefined)"
| "get_prop v k = Undefined"

text \<open>\<^verbatim>\<open>file.size\<close> and \<^verbatim>\<open>file.name\<close> of a form entry: a string entry has neither.\<close>

fun size_of :: "jsval \<Rightarrow> jsval" where
  "size_of (FileObj f) = Num (of_nat (file_size f))"
| "size_of v = Undefined"

fun name_of :: "jsval \<Rightarrow> jsval" where
  "name_of (FileObj f) = Str (file_name f)"
| "name_of v = Undefined"

text \<open>
  \<^verbatim>\<open>x / (1024 * 1024)\<close>: dividing an integer below \<open>2^53\<close> by a power of two is exact
  in binary floating point; \<^verbatim>\<open>undefined\<close> divided by a number is \<^verbatim>\<open>NaN\<close>.
\<close>

fun div_MiB :: "jsval \<Rightarrow> jsval" where
  "div_MiB (Num q) = Num (q / (1024 * 1024))"
| "div_MiB v = NaN"

text \<open>\<^verbatim>\<open>x > 200\<close>: false on \<^verbatim>\<open>NaN\<close>.\<close>

fun gt200 :: "jsval \<Rightarrow> bool" where
  "gt200 (Num q) = (q > 200)"
| "gt200 v = False"

subsection \<open>Numbers to text\<close>

definition digit :: "nat \<Rightarrow> jschar" where
  "digit d = of_nat (48 + d)"

fun dec :: "nat \<Rightarrow> jsstring" where
  "dec n = (if n < 10 then [digit n] else dec (n div 10) @ [digit (n mod 10)])"

text \<open>
  \<^verbatim>\<open>x.toFixed(2)\<close> for \<open>x \<ge> 0\<close>: the integer \<open>n\<close> with \<open>n / 100\<close> nearest to the exact
  value of \<open>x\<close>, the larger one on a tie; then \<open>n\<close> in decimal with a point before
  its last two digits.
\<close>

definition hundredths :: "rat \<Rightarrow> nat" where
  "hundredths q = nat \<lfloor>100 * q + 1 / 2\<rfloor>"

fun toFixed2 :: "jsval \<Rightarrow> jsstring" where
  "toFixed2 (Num q) =
     (let n = hundredths q
      in dec (n div 100) @ js ''.'' @ [digit (n div 10 mod 10), digit (n mod 10)])"
| "toFixed2 v = js ''NaN''"

text \<open>
  \<^verbatim>\<open>parseFloat(x.toFixed(2))\<close>: the number whose JSON text is \<open>n / 100\<close>; \<^verbatim>\<open>NaN\<close>
  stays \<^verbatim>\<open>NaN\<close>.
\<close>

fun parseFloat_toFixed2 :: "jsval \<Rightarrow> jsval" where
  "parseFloat_toFixed2 (Num q) = Num (of_nat (hundredths q) / 100)"
| "parseFloat_toFixed2 v = NaN"

subsection \<open>String operations\<close>

text \<open>\<^verbatim>\<open>s.startsWith(p)\<close>\<close>

definition startsWith :: "jsstring \<Rightarrow> jsstring \<Rightarrow> bool" where
  "startsWith s p = (take (length p) s = p)"

text \<open>
  \<^verbatim>\<open>s.trim()\<close> removes ECMAScript white space and line terminators from both ends.
\<close>

definition isWhiteSpace :: "jschar \<Rightarrow> bool" where
  "isWhiteSpace c =
     (c \<in> {0x9, 0xA, 0xB, 0xC, 0xD, 0x20, 0xA0, 0x1680, 0x2028, 0x2029, 0x202F, 0x205F,
           0x3000, 0xFEFF}
      \<or> (0x2000 \<le> c \<and> c \<le> 0x200A))"

definition trim :: "jsstring \<Rightarrow> jsstring" where
  "trim s = rev (dropWhile isWhiteSpace (rev (dropWhile isWhiteSpace s)))"

text \<open>\<^verbatim>\<open>urlPath.split('/').pop()\<close>: what follows the last slash.\<close>

definition split_pop :: "jsstring \<Rightarrow> jsstring" where
  "split_pop s = rev (takeWhile (\<lambda>c. c \<noteq> 0x2F) (rev s))"

section \<open>The host: requests, responses and the network\<close>

text \<open>
  The request as the handlers see it: its method, the path of its URL, and what
  \<^verbatim>\<open>request.formData()\<close> and \<^verbatim>\<open>request.json()\<close> would give. \<open>Inl m\<close> is a
  rejection with the error message \<open>m\<close>. The handlers never read the
  \<^verbatim>\<open>Content-Type\<close> header; \<^verbatim>\<open>request.formData()\<close> does: it parses a body of type
  \<^verbatim>\<open>multipart/form-data\<close> or \<^verbatim>\<open>application/x-www-form-urlencoded\<close> (every entry
  of the latter a string) and rejects any other.
\<close>

record request =
  req_method :: jsstring
  req_pathname :: jsstring
  req_contentType :: jsstring
  req_formData :: "jsstring + (jsstring \<times> jsval) list"
  req_json :: "jsstring + jsval"

text \<open>\<^verbatim>\<open>formData.get(name)\<close>: the first entry of that name, or \<^verbatim>\<open>null\<close>.\<close>

definition form_get :: "(jsstring \<times> jsval) list \<Rightarrow> jsstring \<Rightarrow> jsval" where
  "form_get fd k = (case map_of fd k of Some v \<Rightarrow> v | None \<Rightarrow> Null)"

text \<open>
  An outbound call of the global \<^verbatim>\<open>fetch\<close>: a GET of the value given as the URL, or
  a POST of a form, written as the arguments of its \<^verbatim>\<open>append\<close> calls in order.
\<close>

datatype outcall =
    Get jsval
  | Post jsstring "(jsstring \<times> jsval) list"

text \<open>What an outbound call answers, as far as the handlers read it.\<close>

record upstream =
  up_status :: nat
  up_content_type :: "jsstring option"
  up_blob :: "jsstring + blob"
  up_text :: "jsstring + jsstring"

text \<open>\<^verbatim>\<open>response.ok\<close>\<close>

definition ok :: "upstream \<Rightarrow> bool" where
  "ok r = (200 \<le> up_status r \<and> up_status r \<le> 299)"

text \<open>
  The runtime around the worker: \<^verbatim>\<open>new URL(v)\<close> (the path of the parsed URL, or
  \<open>None\<close> when it throws), the global \<^verbatim>\<open>fetch\<close>, the clock behind
  \<^verbatim>\<open>new Date().toISOString()\<close>, and the message of the TypeError of destructuring
  \<^verbatim>\<open>null\<close>.
\<close>

record host =
  URL_pathname :: "jsval \<Rightarrow> jsstring option"
  global_fetch :: "outcall \<Rightarrow> jsstring + upstream"
  now_iso :: jsstring
  destructure_message :: jsstring

text \<open>
  The worker's \<^verbatim>\<open>Response\<close>: status, headers, and the value given to
  \<^verbatim>\<open>JSON.stringify\<close> for the body (\<open>None\<close> for the \<^verbatim>\<open>null\<close> body). A handler's
  outcome is its response and the outbound calls it made, in order.
\<close>

record response =
  status :: nat
  headers :: "(jsstring \<times> jsstring) list"
  body :: "jsval option"

type_synonym outcome = "response \<times> outcall list"

definition Response :: "jsval \<Rightarrow> nat \<Rightarrow> (jsstring \<times> jsstring) list \<Rightarrow> response" where
  "Response b s hs = \<lparr>status = s, headers = hs, body = Some b\<rparr>"

section \<open>The handlers\<close>

definition handleRoot :: "(jsstring \<times> jsstring) list \<Rightarrow> response" where
  "handleRoot hs =
     Response (Obj
       [(js ''message'', Str (js ''Catbox Uploader API - Cloudflare Workers Edition'')),
        (js ''endpoints'', Obj
          [(js ''/upload'', Str (js ''Upload file to catbox.moe (permanent)'')),
           (js ''/upload/temp'', Str (js ''Upload file to litterbox (temporary)'')),
           (js ''/upload/url'', Str (js ''Upload file from URL'')),
           (js ''/health'', Str (js ''Check API status''))]),
        (js ''limits'', Obj
          [(js ''max_file_size'', Str (js ''200MB'')),
           (js ''allowed_methods'', Arr [Str (js ''POST'')]),
           (js ''temp_durations'',
              Arr [Str (js ''1h''), Str (js ''12h''), Str (js ''24h''), Str (js ''72h'')])])])
       200 hs"

definition handleHealth :: "host \<Rightarrow> (jsstring \<times> jsstring) list \<Rightarrow> response" where
  "handleHealth h hs =
     Response (Obj
       [(js ''status'', Str (js ''ok'')),
        (js ''service'', Str (js ''catbox-uploader-worker'')),
        (js ''timestamp'', Str (now_iso h))])
       200 hs"

text \<open>The three responses the upload handlers share word for word.\<close>

definition method_not_allowed :: "(jsstring \<times> jsstring) list \<Rightarrow> response" where
  "method_not_allowed hs = Response (Obj [(js ''error'', Str (js ''Method not allowed''))]) 405 hs"

definition file_too_large :: "jsval \<Rightarrow> (jsstring \<times> jsstring) list \<Rightarrow> response" where
  "file_too_large fileSizeMB hs =
     Response (Obj
       [(js ''error'', Str (js ''File too large'')),
        (js ''max_size'', Str (js ''200MB'')),
        (js ''file_size'', Str (toFixed2 fileSizeMB @ js ''MB''))])
       413 hs"

text \<open>The \<^verbatim>\<open>catch (error)\<close> block of each upload handler.\<close>

definition upload_failed :: "jsstring \<Rightarrow> (jsstring \<times> jsstring) list \<Rightarrow> response" where
  "upload_failed message hs =
     Response (Obj
       [(js ''success'', Bool False),
        (js ''error'', Str (js ''Upload failed'')),
        (js ''message'', Str message)])
       500 hs"

definition catbox_api :: jsstring where
  "catbox_api = js ''https://catbox.moe/user/api.php''"

definition litterbox_api :: jsstring where
  "litterbox_api = js ''https://litterbox.catbox.moe/resources/internals/api.php''"

definition handleUpload :: "host \<Rightarrow> request \<Rightarrow> (jsstring \<times> jsstring) list \<Rightarrow> outcome" where
  "handleUpload h request hs =
     (if req_method request \<noteq> js ''POST'' then (method_not_allowed hs, [])
      else case req_formData request of
        Inl m \<Rightarrow> (upload_failed m hs, [])
      | Inr formData \<Rightarrow>
          let file = form_get formData (js ''file'') in
          if \<not> truthy file
          then (Response (Obj [(js ''error'', Str (js ''No file provided''))]) 400 hs, [])
          else
            let fileSize = size_of file;
                fileSizeMB = div_MiB fileSize in
            if gt200 fileSizeMB then (file_too_large fileSizeMB hs, [])
            else
              let uploadFormData =
                    [(js ''reqtype'', Str (js ''fileupload'')), (js ''fileToUpload'', file)];
                  call = Post catbox_api uploadFormData in
              case global_fetch h call of
                Inl m \<Rightarrow> (upload_failed m hs, [call])
              | Inr response \<Rightarrow>
                  if \<not> ok response
                  then (upload_failed
                          (js ''Upload failed with status '' @ dec (up_status response)) hs,
                        [call])
                  else case up_text response of
                    Inl m \<Rightarrow> (upload_failed m hs, [call])
                  | Inr result \<Rightarrow>
                      if startsWith result (js ''https://'')
                      then (Response (Obj
                              [(js ''success'', Bool True),
                               (js ''url'', Str (trim result)),
                               (js ''filename'', name_of file),
                               (js ''size_mb'', parseFloat_toFixed2 fileSizeMB)])
                              200 hs,
                            [call])
                      else (upload_failed (js ''Invalid response from catbox'') hs, [call]))"

definition validTimes :: "jsval list" where
  "validTimes = [Str (js ''1h''), Str (js ''12h''), Str (js ''24h''), Str (js ''72h'')]"

definition handleUploadTemp :: "host \<Rightarrow> request \<Rightarrow> (jsstring \<times> jsstring) list \<Rightarrow> outcome" where
  "handleUploadTemp h request hs =
     (if req_method request \<noteq> js ''POST'' then (method_not_allowed hs, [])
      else case req_formData request of
        Inl m \<Rightarrow> (upload_failed m hs, [])
      | Inr formData \<Rightarrow>
          let file = form_get formData (js ''file'');
              time = js_or (form_get formData (js ''time'')) (Str (js ''1h'')) in
          if \<not> truthy file
          then (Response (Obj [(js ''error'', Str (js ''No file provided''))]) 400 hs, [])
          else if time \<notin> set validTimes
          then (Response (Obj
                  [(js ''error'', Str (js ''Invalid time parameter'')),
                   (js ''valid_times'', Arr validTimes),
                   (js ''provided'', time)])
                  400 hs,
                [])
          else
            let fileSize = size_of file;
                fileSizeMB = div_MiB fileSize in
            if gt200 fileSizeMB then (file_too_large fileSizeMB hs, [])
            else
              let uploadFormData =
                    [(js ''reqtype'', Str (js ''fileupload'')),
                     (js ''time'', time),
                     (js ''fileToUpload'', file)];
                  call = Post litterbox_api uploadFormData in
              case global_fetch h call of
                Inl m \<Rightarrow> (upload_failed m hs, [call])
              | Inr response \<Rightarrow>
                  if \<not> ok response
                  then (upload_failed
                          (js ''Upload failed with status '' @ dec (up_status response)) hs,
                        [call])
                  else case up_text response of
                    Inl m \<Rightarrow> (upload_failed m hs, [call])
                  | Inr result \<Rightarrow>
                      if startsWith result (js ''https://'')
                      then (Response (Obj
                              [(js ''success'', Bool True),
                               (js ''url'', Str (trim result)),
                               (js ''filename'', name_of file),
                               (js ''size_mb'', parseFloat_toFixed2 fileSizeMB),
                               (js ''expiration'', time),
                               (js ''temporary'', Bool True)])
                              200 hs,
                            [call])
                      else (upload_failed (js ''Invalid response from litterbox'') hs, [call]))"

text \<open>
  \<^verbatim>\<open>const { url, temporary = false, time = '1h' } = body\<close>: destructuring
  \<^verbatim>\<open>null\<close> throws; a default stands in for a property that is \<^verbatim>\<open>undefined\<close>.
\<close>

definition with_default :: "jsval \<Rightarrow> jsval \<Rightarrow> jsval" where
  "with_default v d = (if v = Undefined then d else v)"

definition destructure :: "host \<Rightarrow> jsval \<Rightarrow> jsstring + (jsval \<times> jsval \<times> jsval)" where
  "destructure h b =
     (if b = Null \<or> b = Undefined then Inl (destructure_message h)
      else Inr (get_prop b (js ''url''),
                with_default (get_prop b (js ''temporary'')) (Bool False),
                with_default (get_prop b (js ''time'')) (Str (js ''1h''))))"

text \<open>\<^verbatim>\<open>a || b\<close> on strings, and on the string or \<^verbatim>\<open>null\<close> of \<^verbatim>\<open>headers.get\<close>.\<close>

definition str_or :: "jsstring \<Rightarrow> jsstring \<Rightarrow> jsstring" where
  "str_or a b = (if a \<noteq> [] then a else b)"

definition header_or :: "jsstring option \<Rightarrow> jsstring \<Rightarrow> jsstring" where
  "header_or a b = (case a of None \<Rightarrow> b | Some s \<Rightarrow> str_or s b)"

text \<open>
  The type that \<^verbatim>\<open>new File(bits, name, {type})\<close> gives the file: the empty string
  when a character of \<^verbatim>\<open>type\<close> lies outside U+0020 to U+007E, else \<^verbatim>\<open>type\<close> in
  ASCII lower case.
\<close>

definition toAsciiLower :: "jschar \<Rightarrow> jschar" where
  "toAsciiLower c = (if 0x41 \<le> c \<and> c \<le> 0x5A then c + 0x20 else c)"

definition File_type :: "jsstring \<Rightarrow> jsstring" where
  "File_type t =
     (if list_all (\<lambda>c. 0x20 \<le> c \<and> c \<le> 0x7E) t then map toAsciiLower t else [])"

text \<open>
  The source parses the URL twice (lines 267 and 293), both times the same value:
  the model takes the path from the first parse.
\<close>

definition handleUploadFromUrl :: "host \<Rightarrow> request \<Rightarrow> (jsstring \<times> jsstring) list \<Rightarrow> outcome" where
  "handleUploadFromUrl h request hs =
     (if req_method request \<noteq> js ''POST'' then (method_not_allowed hs, [])
      else case req_json request of
        Inl m \<Rightarrow> (upload_failed m hs, [])
      | Inr b \<Rightarrow>
      (case destructure h b of
        Inl m \<Rightarrow> (upload_failed m hs, [])
      | Inr (url, temporary, time) \<Rightarrow>
          if \<not> truthy url
          then (Response (Obj [(js ''error'', Str (js ''No URL provided''))]) 400 hs, [])
          else case URL_pathname h url of
            None \<Rightarrow> (Response (Obj [(js ''error'', Str (js ''Invalid URL''))]) 400 hs, [])
          | Some urlPath \<Rightarrow>
          (case global_fetch h (Get url) of
            Inl m \<Rightarrow> (upload_failed m hs, [Get url])
          | Inr fileResponse \<Rightarrow>
              if \<not> ok fileResponse
              then (Response (Obj
                      [(js ''error'', Str (js ''Failed to download file'')),
                       (js ''status'', Num (of_nat (up_status fileResponse)))])
                      400 hs,
                    [Get url])
              else case up_blob fileResponse of
                Inl m \<Rightarrow> (upload_failed m hs, [Get url])
              | Inr blob \<Rightarrow>
                  let contentType =
                        header_or (up_content_type fileResponse) (js ''application/octet-stream'');
                      filename = str_or (split_pop urlPath) (js ''download'');
                      fileSizeMB = div_MiB (Num (of_nat (blob_size blob))) in
                  if gt200 fileSizeMB then (file_too_large fileSizeMB hs, [Get url])
                  else
                    let file = FileObj \<lparr>file_name = filename, file_size = blob_size blob,
                                 file_type = File_type contentType,
                                 file_data = blob_data blob\<rparr>;
                        uploadFormData =
                          [(js ''reqtype'', Str (js ''fileupload''))]
                          @ (if truthy temporary then [(js ''time'', time)] else [])
                          @ [(js ''fileToUpload'', file)];
                        uploadUrl = (if truthy temporary then litterbox_api else catbox_api);
                        call = Post uploadUrl uploadFormData in
                    case global_fetch h call of
                      Inl m \<Rightarrow> (upload_failed m hs, [Get url, call])
                    | Inr response \<Rightarrow>
                        if \<not> ok response
                        then (upload_failed
                                (js ''Upload failed with status '' @ dec (up_status response)) hs,
                              [Get url, call])
                        else case up_text response of
                          Inl m \<Rightarrow> (upload_failed m hs, [Get url, call])
                        | Inr result \<Rightarrow>
                            if startsWith result (js ''https://'')
                            then (Response (Obj
                                    ([(js ''success'', Bool True),
                                      (js ''url'', Str (trim result)),
                                      (js ''original_url'', url),
                                      (js ''filename'', Str filename),
                                      (js ''size_mb'', parseFloat_toFixed2 fileSizeMB)]
                                     @ (if truthy temporary
                                        then [(js ''expiration'', time),
                                              (js ''temporary'', Bool True)]
                                        else [])))
                                    200 hs,
                                  [Get url, call])
                            else (upload_failed (js ''Invalid response from catbox'') hs,
                                  [Get url, call]))))"

section \<open>The router\<close>

definition corsHeaders :: "(jsstring \<times> jsstring) list" where
  "corsHeaders =
     [(js ''Access-Control-Allow-Origin'', js ''*''),
      (js ''Access-Control-Allow-Methods'', js ''GET, POST, OPTIONS''),
      (js ''Access-Control-Allow-Headers'', js ''Content-Type''),
      (js ''Content-Type'', js ''application/json'')]"

text \<open>
  The exported \<^verbatim>\<open>fetch\<close>. Its own \<^verbatim>\<open>catch\<close> (lines 44 to 52) has no branch here:
  \<^verbatim>\<open>handleRoot\<close> and \<^verbatim>\<open>handleHealth\<close> throw nothing, and the three upload
  handlers are asynchronous and catch every failure themselves.
\<close>

definition fetch :: "host \<Rightarrow> request \<Rightarrow> outcome" where
  "fetch h request =
     (if req_method request = js ''OPTIONS''
      then (\<lparr>status = 200, headers = corsHeaders, body = None\<rparr>, [])
      else if req_pathname request = js ''/'' then (handleRoot corsHeaders, [])
      else if req_pathname request = js ''/health'' then (handleHealth h corsHeaders, [])
      else if req_pathname request = js ''/upload'' then handleUpload h request corsHeaders
      else if req_pathname request = js ''/upload/temp''
        then handleUploadTemp h request corsHeaders
      else if req_pathname request = js ''/upload/url''
        then handleUploadFromUrl h request corsHeaders
      else (Response (Obj [(js ''error'', Str (js ''Not found''))]) 404 corsHeaders, []))"

section \<open>The shared tail of the upload handlers\<close>

text \<open>
  The three upload handlers end with the same steps, written out in each: the upstream
  call, the test of \<^verbatim>\<open>response.ok\<close>, the test of the prefix, the envelope.
  \<open>relay\<close> names these steps, and \<open>url_form\<close> the form that
  \<^verbatim>\<open>handleUploadFromUrl\<close> builds; the lemmas \<open>handleUpload_relay\<close>,
  \<open>handleUploadTemp_relay\<close> and \<open>handleUploadFromUrl_relay\<close> show that each handler,
  as defined above, is its validation followed by \<open>relay\<close>.
\<close>

definition relay ::
  "host \<Rightarrow> outcall \<Rightarrow> (jsstring \<times> jsstring) list \<Rightarrow> outcall list \<Rightarrow> jsstring
     \<Rightarrow> (jsstring \<Rightarrow> jsval) \<Rightarrow> outcome" where
  "relay h call hs before invalid envelope =
     (case global_fetch h call of
        Inl m \<Rightarrow> (upload_failed m hs, before @ [call])
      | Inr response \<Rightarrow>
          if \<not> ok response
          then (upload_failed (js ''Upload failed with status '' @ dec (up_status response)) hs,
                before @ [call])
          else case up_text response of
            Inl m \<Rightarrow> (upload_failed m hs, before @ [call])
          | Inr result \<Rightarrow>
              if startsWith result (js ''https://'')
              then (Response (envelope result) 200 hs, before @ [call])
              else (upload_failed invalid hs, before @ [call]))"

definition url_form :: "jsval \<Rightarrow> jsval \<Rightarrow> jsstring \<Rightarrow> upstream \<Rightarrow> blob \<Rightarrow> (jsstring \<times> jsval) list" where
  "url_form temporary time urlPath fileResponse blob =
     [(js ''reqtype'', Str (js ''fileupload''))]
     @ (if truthy temporary then [(js ''time'', time)] else [])
     @ [(js ''fileToUpload'',
         FileObj \<lparr>file_name = str_or (split_pop urlPath) (js ''download''),
                  file_size = blob_size blob,
                  file_type = File_type (header_or (up_content_type fileResponse)
                                           (js ''application/octet-stream'')),
                  file_data = blob_data blob\<rparr>)]"

section \<open>Reading an outcome\<close>

text \<open>The upload calls among the outbound calls: the POSTs to an upstream.\<close>

fun is_upload :: "outcall \<Rightarrow> bool" where
  "is_upload (Post u fd) = True"
| "is_upload (Get u) = False"

definition upload_calls :: "outcall list \<Rightarrow> outcall list" where
  "upload_calls cs = filter is_upload cs"

section \<open>Example requests and hosts\<close>

definition png_file :: jsfile where
  "png_file = \<lparr>file_name = js ''a.png'', file_size = 5 * 1048576,
                file_type = js ''image/png'', file_data = 1\<rparr>"

definition big_file :: jsfile where
  "big_file = \<lparr>file_name = js ''big.iso'', file_size = 300 * 1048576,
                file_type = js ''application/octet-stream'', file_data = 2\<rparr>"

definition answer :: "nat \<Rightarrow> nat \<Rightarrow> string \<Rightarrow> upstream" where
  "answer st sz txt =
     \<lparr>up_status = st, up_content_type = Some (js ''image/png''),
      up_blob = Inr \<lparr>blob_size = sz, blob_data = 3\<rparr>, up_text = Inr (js txt)\<rparr>"

text \<open>
  A host that parses one URL, answers every GET with \<open>src\<close> and every POST with
  \<open>up\<close>.
\<close>

definition example_host :: "upstream \<Rightarrow> upstream \<Rightarrow> host" where
  "example_host src up =
     \<lparr>URL_pathname =
        (\<lambda>v. if v = Str (js ''https://example.com/a.png'') then Some (js ''/a.png'') else None),
      global_fetch = (\<lambda>c. case c of Get u \<Rightarrow> Inr src | Post u fd \<Rightarrow> Inr up),
      now_iso = js ''2024-01-01T00:00:00.000Z'',
      destructure_message = js ''Cannot destructure property of null''\<rparr>"

definition form_request :: "string \<Rightarrow> string \<Rightarrow> (jsstring \<times> jsval) list \<Rightarrow> request" where
  "form_request m p fd =
     \<lparr>req_method = js m, req_pathname = js p,
      req_contentType = js ''multipart/form-data; boundary=x'',
      req_formData = Inr fd,
      req_json = Inl (js ''Unexpected token'')\<rparr>"

definition urlencoded_request :: "string \<Rightarrow> string \<Rightarrow> (jsstring \<times> jsval) list \<Rightarrow> request" where
  "urlencoded_request m p fd =
     \<lparr>req_method = js m, req_pathname = js p,
      req_contentType = js ''application/x-www-form-urlencoded'',
      req_formData = Inr fd,
      req_json = Inl (js ''Unexpected token'')\<rparr>"

definition json_request :: "string \<Rightarrow> string \<Rightarrow> jsval \<Rightarrow> request" where
  "json_request m p b =
     \<lparr>req_method = js m, req_pathname = js p,
      req_contentType = js ''application/json'',
      req_formData = Inl (js ''Unrecognized Content-Type header value''),
      req_json = Inr b\<rparr>"

definition unparsed_request :: "string \<Rightarrow> string \<Rightarrow> request" where
  "unparsed_request m p =
     \<lparr>req_method = js m, req_pathname = js p,
      req_contentType = js ''text/plain'',
      req_formData = Inl (js ''Unrecognized Content-Type header value''),
      req_json = Inl (js ''Unexpected token'')\<rparr>"

section \<open>Facts about strings\<close>

declare dec.simps [simp del]

lemma of_char_lt: "of_char (c::char) < (256::nat)"
  by (cases c) simp

lemma js_char_inj: "(of_nat (of_char a) :: 16 word) = of_nat (of_char b) \<longleftrightarrow> a = b"
proof -
  have "of_char a < (65536::nat)" "of_char b < (65536::nat)"
    using of_char_lt [of a] of_char_lt [of b] by linarith+
  then have "take_bit 16 (of_char a :: nat) = of_char a"
    and "take_bit 16 (of_char b :: nat) = of_char b"
    by (simp_all add: take_bit_nat_eq_self_iff)
  then show ?thesis by (simp add: word_of_nat_eq_iff)
qed

lemma js_inj: "js a = js b \<longleftrightarrow> a = b"
proof -
  have "inj (\<lambda>c::char. (of_nat (of_char c) :: 16 word))"
    by (rule injI) (simp add: js_char_inj)
  then show ?thesis unfolding js_def by (rule inj_map_eq_map)
qed

lemma length_js: "length (js s) = length s"
  by (simp add: js_def)

lemma take_js: "take n (js s) = js (take n s)"
  by (simp add: js_def take_map)

lemma js_Nil_iff: "js s = [] \<longleftrightarrow> s = []"
  by (simp add: js_def)

lemma Nil_js_iff: "[] = js s \<longleftrightarrow> s = []"
  by (simp add: js_def)

lemma startsWith_js: "startsWith (js s) (js p) = (take (length p) s = p)"
  by (simp add: startsWith_def length_js take_js js_inj)

lemma startsWith_iff: "startsWith s p \<longleftrightarrow> (\<exists>t. s = p @ t)"
  unfolding startsWith_def
proof
  assume "take (length p) s = p"
  then have "s = p @ drop (length p) s"
    by (metis append_take_drop_id)
  then show "\<exists>t. s = p @ t" ..
next
  assume "\<exists>t. s = p @ t"
  then show "take (length p) s = p" by auto
qed

lemma js_append: "js (a @ b) = js a @ js b"
  by (simp add: js_def)



lemma split_pop_example: "split_pop (js ''/a.png'') = js ''a.png''"
  by (simp add: split_pop_def js_def)

lemma File_type_example: "File_type (js ''Image/PNG'') = js ''image/png''"
  by (simp add: File_type_def toAsciiLower_def js_def)


lemma trim_strips_tail:
  assumes "s \<noteq> []" and "\<not> isWhiteSpace (hd s)" and "\<not> isWhiteSpace (last s)"
    and "\<forall>c\<in>set t. isWhiteSpace c"
  shows "trim (s @ t) = s"
proof -
  have front: "dropWhile isWhiteSpace (s @ t) = s @ t"
    using assms(1,2) by (cases s) simp_all
  have "dropWhile isWhiteSpace (rev t @ rev s) = dropWhile isWhiteSpace (rev s)"
    using assms(4) by (simp add: dropWhile_append)
  also have "\<dots> = rev s"
    using assms(1,3) by (cases "rev s") (simp_all add: hd_rev [symmetric])
  finally show ?thesis
    by (simp add: trim_def front)
qed

lemma dropWhile_keeps_back:
  assumes "p \<noteq> []" and "\<not> P (hd p)"
  shows "\<exists>u. dropWhile P (t @ p) = u @ p"
proof (cases "\<forall>x\<in>set t. P x")
  case True
  then have "dropWhile P (t @ p) = dropWhile P p"
    by (simp add: dropWhile_append)
  also have "\<dots> = [] @ p"
    using assms by (cases p) simp_all
  finally show ?thesis ..
next
  case False
  then have "dropWhile P (t @ p) = dropWhile P t @ p"
    by (auto simp: dropWhile_append)
  then show ?thesis ..
qed

lemma trim_keeps_prefix:
  assumes "p \<noteq> []" and "\<not> isWhiteSpace (hd p)" and "\<not> isWhiteSpace (last p)"
  shows "\<exists>t. trim (p @ r) = p @ t"
proof -
  have front: "dropWhile isWhiteSpace (p @ r) = p @ r"
    using assms(1,2) by (cases p) simp_all
  have "rev p \<noteq> []" "\<not> isWhiteSpace (hd (rev p))"
    using assms by (simp_all add: hd_rev)
  then obtain u where "dropWhile isWhiteSpace (rev r @ rev p) = u @ rev p"
    using dropWhile_keeps_back by blast
  then have "trim (p @ r) = p @ rev u"
    by (simp add: trim_def front)
  then show ?thesis ..
qed

lemma https_edges:
  "js ''https://'' \<noteq> []" "\<not> isWhiteSpace (hd (js ''https://''))"
  "\<not> isWhiteSpace (last (js ''https://''))"
  by (simp_all add: js_def isWhiteSpace_def)

lemma startsWith_trim:
  assumes "startsWith result (js ''https://'')"
  shows "startsWith (trim result) (js ''https://'')"
proof -
  from assms obtain r where "result = js ''https://'' @ r"
    by (auto simp: startsWith_iff)
  then show ?thesis
    using trim_keeps_prefix [OF https_edges, of r] by (auto simp: startsWith_iff)
qed

section \<open>The router and the headers\<close>

lemma headers_Response: "headers (Response b s hs) = hs"
  by (simp add: Response_def)

lemma status_Response: "status (Response b s hs) = s"
  by (simp add: Response_def)

lemma body_Response: "body (Response b s hs) = Some b"
  by (simp add: Response_def)

lemma headers_handleUpload: "headers (fst (handleUpload h request hs)) = hs"
  by (simp add: handleUpload_def Let_def method_not_allowed_def file_too_large_def
      upload_failed_def headers_Response split: sum.split)

lemma headers_handleUploadTemp: "headers (fst (handleUploadTemp h request hs)) = hs"
  by (simp add: handleUploadTemp_def Let_def method_not_allowed_def file_too_large_def
      upload_failed_def headers_Response split: sum.split)

lemma headers_handleUploadFromUrl: "headers (fst (handleUploadFromUrl h request hs)) = hs"
  by (simp add: handleUploadFromUrl_def Let_def method_not_allowed_def file_too_large_def
      upload_failed_def headers_Response split: sum.split option.split prod.split)

lemma headers_fetch: "headers (fst (fetch h request)) = corsHeaders"
  by (simp add: fetch_def handleRoot_def handleHealth_def headers_Response
      headers_handleUpload headers_handleUploadTemp headers_handleUploadFromUrl)

section \<open>The handlers, step by step\<close>

lemma destructure_Obj:
  "destructure h (Obj kvs) =
     Inr (get_prop (Obj kvs) (js ''url''),
          with_default (get_prop (Obj kvs) (js ''temporary'')) (Bool False),
          with_default (get_prop (Obj kvs) (js ''time'')) (Str (js ''1h'')))"
  by (simp add: destructure_def)

lemma snd_relay: "snd (relay h call hs before invalid envelope) = before @ [call]"
  by (simp add: relay_def split: sum.split)

lemma relay_success:
  assumes "global_fetch h call = Inr r" and "ok r" and "up_text r = Inr result"
    and "startsWith result (js ''https://'')"
  shows "fst (relay h call hs before invalid envelope) = Response (envelope result) 200 hs"
  using assms by (simp add: relay_def)

lemma relay_not_400: "status (fst (relay h call hs before invalid envelope)) \<noteq> 400"
  by (simp add: relay_def upload_failed_def status_Response split: sum.split)


lemma handleUpload_relay:
  "handleUpload h request hs =
     (if req_method request \<noteq> js ''POST'' then (method_not_allowed hs, [])
      else case req_formData request of
        Inl m \<Rightarrow> (upload_failed m hs, [])
      | Inr formData \<Rightarrow>
          if \<not> truthy (form_get formData (js ''file''))
          then (Response (Obj [(js ''error'', Str (js ''No file provided''))]) 400 hs, [])
          else if gt200 (div_MiB (size_of (form_get formData (js ''file''))))
          then (file_too_large (div_MiB (size_of (form_get formData (js ''file'')))) hs, [])
          else relay h
                 (Post catbox_api
                    [(js ''reqtype'', Str (js ''fileupload'')),
                     (js ''fileToUpload'', form_get formData (js ''file''))])
                 hs [] (js ''Invalid response from catbox'')
                 (\<lambda>result. Obj
                    [(js ''success'', Bool True),
                     (js ''url'', Str (trim result)),
                     (js ''filename'', name_of (form_get formData (js ''file''))),
                     (js ''size_mb'',
                      parseFloat_toFixed2 (div_MiB (size_of (form_get formData (js ''file'')))))]))"
  by (simp add: handleUpload_def relay_def Let_def split: sum.split)


lemma handleUploadTemp_relay:
  "handleUploadTemp h request hs =
     (if req_method request \<noteq> js ''POST'' then (method_not_allowed hs, [])
      else case req_formData request of
        Inl m \<Rightarrow> (upload_failed m hs, [])
      | Inr formData \<Rightarrow>
          if \<not> truthy (form_get formData (js ''file''))
          then (Response (Obj [(js ''error'', Str (js ''No file provided''))]) 400 hs, [])
          else if js_or (form_get formData (js ''time'')) (Str (js ''1h'')) \<notin> set validTimes
          then (Response (Obj
                  [(js ''error'', Str (js ''Invalid time parameter'')),
                   (js ''valid_times'', Arr validTimes),
                   (js ''provided'', js_or (form_get formData (js ''time'')) (Str (js ''1h'')))])
                  400 hs,
                [])
          else if gt200 (div_MiB (size_of (form_get formData (js ''file''))))
          then (file_too_large (div_MiB (size_of (form_get formData (js ''file'')))) hs, [])
          else relay h
                 (Post litterbox_api
                    [(js ''reqtype'', Str (js ''fileupload'')),
                     (js ''time'', js_or (form_get formData (js ''time'')) (Str (js ''1h''))),
                     (js ''fileToUpload'', form_get formData (js ''file''))])
                 hs [] (js ''Invalid response from litterbox'')
                 (\<lambda>result. Obj
                    [(js ''success'', Bool True),
                     (js ''url'', Str (trim result)),
                     (js ''filename'', name_of (form_get formData (js ''file''))),
                     (js ''size_mb'',
                      parseFloat_toFixed2 (div_MiB (size_of (form_get formData (js ''file''))))),
                     (js ''expiration'',
                      js_or (form_get formData (js ''time'')) (Str (js ''1h''))),
                     (js ''temporary'', Bool True)]))"
  by (simp add: handleUploadTemp_def relay_def Let_def split: sum.split)

lemma handleUploadFromUrl_relay:
  "handleUploadFromUrl h request hs =
     (if req_method request \<noteq> js ''POST'' then (method_not_allowed hs, [])
      else case req_json request of
        Inl m \<Rightarrow> (upload_failed m hs, [])
      | Inr b \<Rightarrow>
      (case destructure h b of
        Inl m \<Rightarrow> (upload_failed m hs, [])
      | Inr (url, temporary, time) \<Rightarrow>
          if \<not> truthy url
          then (Response (Obj [(js ''error'', Str (js ''No URL provided''))]) 400 hs, [])
          else case URL_pathname h url of
            None \<Rightarrow> (Response (Obj [(js ''error'', Str (js ''Invalid URL''))]) 400 hs, [])
          | Some urlPath \<Rightarrow>
          (case global_fetch h (Get url) of
            Inl m \<Rightarrow> (upload_failed m hs, [Get url])
          | Inr fileResponse \<Rightarrow>
              if \<not> ok fileResponse
              then (Response (Obj
                      [(js ''error'', Str (js ''Failed to download file'')),
                       (js ''status'', Num (of_nat (up_status fileResponse)))])
                      400 hs,
                    [Get url])
              else case up_blob fileResponse of
                Inl m \<Rightarrow> (upload_failed m hs, [Get url])
              | Inr blob \<Rightarrow>
                  if gt200 (div_MiB (Num (of_nat (blob_size blob))))
                  then (file_too_large (div_MiB (Num (of_nat (blob_size blob)))) hs, [Get url])
                  else relay h
                         (Post (if truthy temporary then litterbox_api else catbox_api)
                            (url_form temporary time urlPath fileResponse blob))
                         hs [Get url] (js ''Invalid response from catbox'')
                         (\<lambda>result. Obj
                            ([(js ''success'', Bool True),
                              (js ''url'', Str (trim result)),
                              (js ''original_url'', url),
                              (js ''filename'',
                               Str (str_or (split_pop urlPath) (js ''download''))),
                              (js ''size_mb'',
                               parseFloat_toFixed2 (div_MiB (Num (of_nat (blob_size blob)))))]
                             @ (if truthy temporary
                                then [(js ''expiration'', time), (js ''temporary'', Bool True)]
                                else []))))))"
  by (simp add: handleUploadFromUrl_def relay_def url_form_def Let_def
      split: sum.split option.split prod.split)

text \<open>
  C6. Every response of the worker, whatever the host, the method, the path and the
  outcome, has the header \<^verbatim>\<open>Content-Type: application/json\<close> and the header
  \<^verbatim>\<open>Access-Control-Allow-Origin: *\<close>.
\<close>

theorem every_response_is_json_and_cors:
  "map_of (headers (fst (fetch h request))) (js ''Content-Type'') = Some (js ''application/json'')
   \<and> map_of (headers (fst (fetch h request))) (js ''Access-Control-Allow-Origin'')
       = Some (js ''*'')"
  by (simp add: headers_fetch corsHeaders_def js_inj)

text \<open>
  C7. A request with the method OPTIONS, on any path, gets status 200, no body and the
  three CORS headers; the answer is fixed before any handler runs, so it reads neither
  the path nor the body and makes no outbound call.
\<close>

theorem options_preflight:
  assumes "req_method request = js ''OPTIONS''"
  shows "fetch h request = (\<lparr>status = 200, headers = corsHeaders, body = None\<rparr>, [])
    \<and> map_of corsHeaders (js ''Access-Control-Allow-Origin'') = Some (js ''*'')
    \<and> map_of corsHeaders (js ''Access-Control-Allow-Methods'') = Some (js ''GET, POST, OPTIONS'')
    \<and> map_of corsHeaders (js ''Access-Control-Allow-Headers'') = Some (js ''Content-Type'')"
  using assms by (simp add: fetch_def corsHeaders_def js_inj)

theorem options_preflight_witness:
  "req_method (form_request ''OPTIONS'' ''/upload'' [(js ''file'', FileObj png_file)])
     = js ''OPTIONS''
   \<and> fetch (example_host (answer 200 0 []) (answer 200 0 []))
         (form_request ''OPTIONS'' ''/upload'' [(js ''file'', FileObj png_file)])
       = (\<lparr>status = 200, headers = corsHeaders, body = None\<rparr>, [])"
  using options_preflight
    [of "form_request ''OPTIONS'' ''/upload'' [(js ''file'', FileObj png_file)]"
        "example_host (answer 200 0 []) (answer 200 0 [])"]
  by (simp add: form_request_def)

section \<open>Sizes in MiB\<close>

lemma size_mb_round:
  "parseFloat_toFixed2 (div_MiB (Num (of_nat n)))
     = Num (of_int (round (100 * (of_nat n / 1048576 :: rat))) / 100)"
proof -
  have "0 \<le> \<lfloor>100 * (of_nat n / 1048576 :: rat) + 1 / 2\<rfloor>"
    by simp
  then show ?thesis
    by (simp add: hundredths_def round_def)
qed

lemma round2_close: "\<bar>of_int (round (100 * q)) / 100 - q\<bar> \<le> (1 / 200 :: rat)"
proof -
  have "\<bar>of_int (round (100 * q)) - 100 * q\<bar> \<le> (1 / 2 :: rat)"
    by (rule of_int_round_abs_le)
  then show ?thesis by (simp add: abs_le_iff field_simps)
qed


section \<open>The upstream call\<close>

lemma example_trim:
  "trim (js (''https://files.catbox.moe/abc123.png'' @ [CHR 0x0A]))
     = js ''https://files.catbox.moe/abc123.png''"
proof -
  have "trim (js ''https://files.catbox.moe/abc123.png'' @ js [CHR 0x0A])
          = js ''https://files.catbox.moe/abc123.png''"
    by (rule trim_strips_tail) (simp_all add: js_def isWhiteSpace_def)
  then show ?thesis by (simp only: js_append)
qed

text \<open>
  C2. A POST on \<^verbatim>\<open>/upload\<close> with a file of at most 200 MiB, whose upstream call is
  answered with a status from 200 to 299 and a text that starts with \<^verbatim>\<open>https://\<close>,
  gets status 200 and the body \<^verbatim>\<open>{success: true, url, filename, size_mb}\<close>: the
  url is the trimmed text and still starts with \<^verbatim>\<open>https://\<close>, the filename is the
  file's name, and size_mb is the size in MiB rounded to the nearest hundredth (at most
  \<open>1/200\<close> away from it).
\<close>

theorem upload_success_envelope:
  assumes "req_method request = js ''POST''"
    and "req_pathname request = js ''/upload''"
    and "req_formData request = Inr formData"
    and "form_get formData (js ''file'') = FileObj f"
    and "(of_nat (file_size f) :: rat) / 1048576 \<le> 200"
    and "global_fetch h
           (Post catbox_api
              [(js ''reqtype'', Str (js ''fileupload'')), (js ''fileToUpload'', FileObj f)])
         = Inr r"
    and "ok r"
    and "up_text r = Inr result"
    and "startsWith result (js ''https://'')"
  shows "fst (fetch h request) =
           \<lparr>status = 200, headers = corsHeaders,
            body = Some (Obj
              [(js ''success'', Bool True),
               (js ''url'', Str (trim result)),
               (js ''filename'', Str (file_name f)),
               (js ''size_mb'',
                Num (of_int (round (100 * (of_nat (file_size f) / 1048576 :: rat))) / 100))])\<rparr>
    \<and> \<bar>of_int (round (100 * (of_nat (file_size f) / 1048576 :: rat))) / 100
         - of_nat (file_size f) / 1048576\<bar> \<le> (1 / 200 :: rat)
    \<and> startsWith (trim result) (js ''https://'')"
proof -
  have "\<not> gt200 (div_MiB (size_of (FileObj f)))"
    using assms(5) by simp
  then have "fetch h request =
      relay h
        (Post catbox_api
           [(js ''reqtype'', Str (js ''fileupload'')), (js ''fileToUpload'', FileObj f)])
        corsHeaders [] (js ''Invalid response from catbox'')
        (\<lambda>result. Obj
           [(js ''success'', Bool True),
            (js ''url'', Str (trim result)),
            (js ''filename'', name_of (FileObj f)),
            (js ''size_mb'', parseFloat_toFixed2 (div_MiB (size_of (FileObj f))))])"
    using assms(1-4) by (simp add: fetch_def js_inj handleUpload_relay)
  then have "fst (fetch h request) =
      Response (Obj
           [(js ''success'', Bool True),
            (js ''url'', Str (trim result)),
            (js ''filename'', name_of (FileObj f)),
            (js ''size_mb'', parseFloat_toFixed2 (div_MiB (size_of (FileObj f))))])
        200 corsHeaders"
    using relay_success [OF assms(6-9)] by simp
  then have "fst (fetch h request) =
           \<lparr>status = 200, headers = corsHeaders,
            body = Some (Obj
              [(js ''success'', Bool True),
               (js ''url'', Str (trim result)),
               (js ''filename'', Str (file_name f)),
               (js ''size_mb'',
                Num (of_int (round (100 * (of_nat (file_size f) / 1048576 :: rat))) / 100))])\<rparr>"
    using size_mb_round [of "file_size f"] by (simp add: Response_def)
  moreover have "startsWith (trim result) (js ''https://'')"
    using assms(9) by (rule startsWith_trim)
  ultimately show ?thesis
    using round2_close [of "of_nat (file_size f) / 1048576"] by blast
qed


theorem upload_success_envelope_witness:
  "ok (answer 200 0 (''https://files.catbox.moe/abc123.png'' @ [CHR 0x0A]))
   \<and> fst (fetch
        (example_host (answer 200 0 [])
           (answer 200 0 (''https://files.catbox.moe/abc123.png'' @ [CHR 0x0A])))
        (form_request ''POST'' ''/upload'' [(js ''file'', FileObj png_file)]))
     = \<lparr>status = 200, headers = corsHeaders,
        body = Some (Obj
          [(js ''success'', Bool True),
           (js ''url'', Str (js ''https://files.catbox.moe/abc123.png'')),
           (js ''filename'', Str (js ''a.png'')),
           (js ''size_mb'', Num 5)])\<rparr>"
  using upload_success_envelope
      [of "form_request ''POST'' ''/upload'' [(js ''file'', FileObj png_file)]"
          "[(js ''file'', FileObj png_file)]" png_file
          "example_host (answer 200 0 [])
             (answer 200 0 (''https://files.catbox.moe/abc123.png'' @ [CHR 0x0A]))"
          "answer 200 0 (''https://files.catbox.moe/abc123.png'' @ [CHR 0x0A])"
          "js (''https://files.catbox.moe/abc123.png'' @ [CHR 0x0A])"]
    example_trim
  by (simp add: form_request_def example_host_def answer_def ok_def png_file_def form_get_def
      js_inj startsWith_js)



section \<open>Client errors\<close>

text \<open>
  C10. A POST on \<^verbatim>\<open>/upload\<close> or \<^verbatim>\<open>/upload/temp\<close> whose body
  \<^verbatim>\<open>request.formData()\<close> rejects, and a POST on \<^verbatim>\<open>/upload/url\<close> whose body
  \<^verbatim>\<open>request.json()\<close> rejects, is answered from the handler's \<^verbatim>\<open>catch\<close> block:
  status 500 (not 400) with \<^verbatim>\<open>success: false\<close>, \<^verbatim>\<open>error: 'Upload failed'\<close> and the
  parser's message, and no outbound call. A body that is not multipart form data is not
  always rejected: \<^verbatim>\<open>request.formData()\<close> parses a URL-encoded body, and the handler
  then answers it as a form, with 400 when it has no \<^verbatim>\<open>file\<close> entry.
\<close>

theorem unparsable_body_is_500:
  assumes "req_method request = js ''POST''"
    and "(req_pathname request = js ''/upload'' \<or> req_pathname request = js ''/upload/temp'')
           \<and> req_formData request = Inl m
         \<or> req_pathname request = js ''/upload/url'' \<and> req_json request = Inl m"
  shows "fetch h request =
           (\<lparr>status = 500, headers = corsHeaders,
             body = Some (Obj [(js ''success'', Bool False),
                               (js ''error'', Str (js ''Upload failed'')),
                               (js ''message'', Str m)])\<rparr>, [])"
  using assms
  by (auto simp: fetch_def js_inj handleUpload_def handleUploadTemp_def handleUploadFromUrl_def
      upload_failed_def Response_def)

theorem unparsable_body_is_500_witness:
  "fetch (example_host (answer 200 0 []) (answer 200 0 [])) (unparsed_request ''POST'' ''/upload'')
     = (\<lparr>status = 500, headers = corsHeaders,
         body = Some (Obj [(js ''success'', Bool False),
                           (js ''error'', Str (js ''Upload failed'')),
                           (js ''message'', Str (js ''Unrecognized Content-Type header value''))])\<rparr>, [])
   \<and> fetch (example_host (answer 200 0 []) (answer 200 0 [])) (unparsed_request ''POST'' ''/upload/url'')
     = (\<lparr>status = 500, headers = corsHeaders,
         body = Some (Obj [(js ''success'', Bool False),
                           (js ''error'', Str (js ''Upload failed'')),
                           (js ''message'', Str (js ''Unexpected token''))])\<rparr>, [])"
  using unparsable_body_is_500
      [of "unparsed_request ''POST'' ''/upload''" "js ''Unrecognized Content-Type header value''"
          "example_host (answer 200 0 []) (answer 200 0 [])"]
    unparsable_body_is_500
      [of "unparsed_request ''POST'' ''/upload/url''" "js ''Unexpected token''"
          "example_host (answer 200 0 []) (answer 200 0 [])"]
  by (simp add: unparsed_request_def js_inj)

theorem urlencoded_body_counterexample:
  "req_method (urlencoded_request ''POST'' ''/upload'' [(js ''time'', Str (js ''1h''))]) = js ''POST''
   \<and> req_pathname (urlencoded_request ''POST'' ''/upload'' [(js ''time'', Str (js ''1h''))]) = js ''/upload''
   \<and> req_contentType (urlencoded_request ''POST'' ''/upload'' [(js ''time'', Str (js ''1h''))])
       = js ''application/x-www-form-urlencoded''
   \<and> \<not> startsWith (req_contentType (urlencoded_request ''POST'' ''/upload'' [(js ''time'', Str (js ''1h''))]))
         (js ''multipart/form-data'')
   \<and> req_formData (urlencoded_request ''POST'' ''/upload'' [(js ''time'', Str (js ''1h''))])
       = Inr [(js ''time'', Str (js ''1h''))]
   \<and> fetch (example_host (answer 200 0 []) (answer 200 0 []))
        (urlencoded_request ''POST'' ''/upload'' [(js ''time'', Str (js ''1h''))])
     = (\<lparr>status = 400, headers = corsHeaders,
         body = Some (Obj [(js ''error'', Str (js ''No file provided''))])\<rparr>, [])"
  by (simp add: urlencoded_request_def js_inj startsWith_js fetch_def handleUpload_relay
      form_get_def Response_def)

text \<open>
  C4. A POST on \<^verbatim>\<open>/upload/url\<close> whose JSON body is an object with a \<^verbatim>\<open>url\<close>
  that \<^verbatim>\<open>new URL\<close> does not parse is answered with status 400, and no outbound
  call is made: neither the GET of the source nor the upload.
\<close>

theorem invalid_url_is_400:
  assumes "req_method request = js ''POST''"
    and "req_pathname request = js ''/upload/url''"
    and "req_json request = Inr (Obj kvs)"
    and "map_of kvs (js ''url'') = Some url"
    and "URL_pathname h url = None"
  shows "status (fst (fetch h request)) = 400
    \<and> body (fst (fetch h request))
        = Some (Obj [(js ''error'',
                      Str (if truthy url then js ''Invalid URL'' else js ''No URL provided''))])
    \<and> snd (fetch h request) = []"
  using assms
  by (simp add: fetch_def js_inj handleUploadFromUrl_def destructure_Obj Response_def)

theorem invalid_url_is_400_witness:
  "URL_pathname (example_host (answer 200 0 []) (answer 200 0 [])) (Str (js ''not a url'')) = None
   \<and> status (fst (fetch (example_host (answer 200 0 []) (answer 200 0 []))
        (json_request ''POST'' ''/upload/url'' (Obj [(js ''url'', Str (js ''not a url''))])))) = 400
   \<and> snd (fetch (example_host (answer 200 0 []) (answer 200 0 []))
        (json_request ''POST'' ''/upload/url'' (Obj [(js ''url'', Str (js ''not a url''))]))) = []"
  using invalid_url_is_400
      [of "json_request ''POST'' ''/upload/url'' (Obj [(js ''url'', Str (js ''not a url''))])"
          "[(js ''url'', Str (js ''not a url''))]" "Str (js ''not a url'')"
          "example_host (answer 200 0 []) (answer 200 0 [])"]
  by (simp add: json_request_def example_host_def js_inj)

text \<open>
  C8. A POST on \<^verbatim>\<open>/upload/url\<close> with a parseable URL whose GET is answered with a
  status outside 200 to 299 gets status 400 with that status in the body; the GET is the
  only outbound call, so nothing is uploaded.
\<close>

theorem failed_download_is_400:
  assumes "req_method request = js ''POST''"
    and "req_pathname request = js ''/upload/url''"
    and "req_json request = Inr (Obj kvs)"
    and "map_of kvs (js ''url'') = Some url"
    and "truthy url"
    and "URL_pathname h url = Some p"
    and "global_fetch h (Get url) = Inr r"
    and "\<not> ok r"
  shows "fetch h request =
           (\<lparr>status = 400, headers = corsHeaders,
             body = Some (Obj [(js ''error'', Str (js ''Failed to download file'')),
                               (js ''status'', Num (of_nat (up_status r)))])\<rparr>,
            [Get url])
    \<and> upload_calls (snd (fetch h request)) = []"
  using assms
  by (simp add: fetch_def js_inj handleUploadFromUrl_def destructure_Obj Response_def
      upload_calls_def)

theorem failed_download_is_400_witness:
  "\<not> ok (answer 404 0 [])
   \<and> fetch (example_host (answer 404 0 []) (answer 200 0 []))
        (json_request ''POST'' ''/upload/url'' (Obj [(js ''url'', Str (js ''https://example.com/a.png''))]))
     = (\<lparr>status = 400, headers = corsHeaders,
         body = Some (Obj [(js ''error'', Str (js ''Failed to download file'')),
                           (js ''status'', Num 404)])\<rparr>,
        [Get (Str (js ''https://example.com/a.png''))])"
  using failed_download_is_400
      [of "json_request ''POST'' ''/upload/url'' (Obj [(js ''url'', Str (js ''https://example.com/a.png''))])"
          "[(js ''url'', Str (js ''https://example.com/a.png''))]" "Str (js ''https://example.com/a.png'')"
          "example_host (answer 404 0 []) (answer 200 0 [])" "js ''/a.png''" "answer 404 0 []"]
  by (simp add: json_request_def example_host_def js_inj js_Nil_iff ok_def answer_def)

text \<open>
  C3. A POST on \<^verbatim>\<open>/upload/temp\<close> whose \<^verbatim>\<open>time\<close> form value is a non-empty string
  or a file, and not one of \<^verbatim>\<open>1h\<close>, \<^verbatim>\<open>12h\<close>, \<^verbatim>\<open>24h\<close>, \<^verbatim>\<open>72h\<close>, gets status
  400 and no outbound call is made; when the request has a file too, the body names the
  four valid values and the value provided. (Without a file the 400 is that of the missing
  file.) An empty \<^verbatim>\<open>time\<close> is not such a value: \<^verbatim>\<open>formData.get('time') || '1h'\<close>
  replaces it, like an absent one, by \<^verbatim>\<open>1h\<close>. The request then has the outcome of the
  same request with \<^verbatim>\<open>time\<close> set to \<^verbatim>\<open>1h\<close>: with a file within the size ceiling
  the upload is issued, with \<^verbatim>\<open>1h\<close> in the form, and the status is not 400.
\<close>

theorem invalid_time_is_400:
  assumes "req_method request = js ''POST''"
    and "req_pathname request = js ''/upload/temp''"
    and "req_formData request = Inr formData"
    and "form_get formData (js ''time'') = time"
  shows "(((\<exists>t. time = Str t \<and> t \<noteq> []) \<or> (\<exists>g. time = FileObj g))
        \<and> time \<notin> {Str (js ''1h''), Str (js ''12h''), Str (js ''24h''), Str (js ''72h'')}
      \<longrightarrow> status (fst (fetch h request)) = 400
        \<and> snd (fetch h request) = []
        \<and> (truthy (form_get formData (js ''file'')) \<longrightarrow>
             body (fst (fetch h request))
               = Some (Obj
               [(js ''error'', Str (js ''Invalid time parameter'')),
                (js ''valid_times'',
                 Arr [Str (js ''1h''), Str (js ''12h''), Str (js ''24h''), Str (js ''72h'')]),
                (js ''provided'', time)])))
    \<and> (time = Null \<or> time = Str []
      \<longrightarrow> fetch h (request\<lparr>req_formData := Inr ((js ''time'', Str (js ''1h'')) # formData)\<rparr>)
            = fetch h request
        \<and> (form_get formData (js ''file'') = FileObj f
             \<and> (of_nat (file_size f) :: rat) / 1048576 \<le> 200
           \<longrightarrow> snd (fetch h request)
                 = [Post litterbox_api
                     [(js ''reqtype'', Str (js ''fileupload'')),
                      (js ''time'', Str (js ''1h'')),
                      (js ''fileToUpload'', FileObj f)]]
               \<and> status (fst (fetch h request)) \<noteq> 400))"
proof -
  have route: "fetch h request = handleUploadTemp h request corsHeaders"
    using assms(1,2) by (simp add: fetch_def js_inj)
  have invalid: "status (fst (fetch h request)) = 400
        \<and> snd (fetch h request) = []
        \<and> (truthy (form_get formData (js ''file'')) \<longrightarrow>
             body (fst (fetch h request))
               = Some (Obj
               [(js ''error'', Str (js ''Invalid time parameter'')),
                (js ''valid_times'',
                 Arr [Str (js ''1h''), Str (js ''12h''), Str (js ''24h''), Str (js ''72h'')]),
                (js ''provided'', time)]))"
    if "((\<exists>t. time = Str t \<and> t \<noteq> []) \<or> (\<exists>g. time = FileObj g))
        \<and> time \<notin> {Str (js ''1h''), Str (js ''12h''), Str (js ''24h''), Str (js ''72h'')}"
  proof -
    from that have "truthy time"
      by auto
    then have "js_or (form_get formData (js ''time'')) (Str (js ''1h'')) = time"
      using assms(4) by (simp add: js_or_def)
    moreover have "time \<notin> set validTimes"
      using that by (simp add: validTimes_def)
    ultimately show ?thesis
      using assms(1-3)
      by (simp add: route handleUploadTemp_relay status_Response body_Response validTimes_def)
  qed
  have default: "js_or (form_get formData (js ''time'')) (Str (js ''1h'')) = Str (js ''1h'')"
    if "time = Null \<or> time = Str []"
    using that assms(4) by (auto simp: js_or_def)
  have same: "fetch h (request\<lparr>req_formData := Inr ((js ''time'', Str (js ''1h'')) # formData)\<rparr>)
            = fetch h request"
    if "time = Null \<or> time = Str []"
  proof -
    have "fetch h (request\<lparr>req_formData := Inr ((js ''time'', Str (js ''1h'')) # formData)\<rparr>)
        = handleUploadTemp h (request\<lparr>req_formData := Inr ((js ''time'', Str (js ''1h'')) # formData)\<rparr>) corsHeaders"
      using assms(1,2) by (simp add: fetch_def js_inj)
    then show ?thesis
      using assms(1,3) default [OF that]
      by (simp add: route handleUploadTemp_relay form_get_def js_or_def js_inj js_Nil_iff)
  qed
  have issued: "snd (fetch h request)
                 = [Post litterbox_api
                     [(js ''reqtype'', Str (js ''fileupload'')),
                      (js ''time'', Str (js ''1h'')),
                      (js ''fileToUpload'', FileObj f)]]
               \<and> status (fst (fetch h request)) \<noteq> 400"
    if "time = Null \<or> time = Str []" and "form_get formData (js ''file'') = FileObj f
             \<and> (of_nat (file_size f) :: rat) / 1048576 \<le> 200"
  proof -
    from that(2) have "\<not> gt200 (div_MiB (size_of (form_get formData (js ''file''))))"
      and "truthy (form_get formData (js ''file''))"
      by simp_all
    then show ?thesis
      using assms(1,3) default [OF that(1)] that(2)
      by (simp add: route handleUploadTemp_relay validTimes_def snd_relay relay_not_400
          del: div_MiB.simps gt200.simps parseFloat_toFixed2.simps)
  qed
  from invalid same issued show ?thesis by blast
qed

theorem invalid_time_is_400_witness:
  "status (fst (fetch (example_host (answer 200 0 []) (answer 200 0 ''https://litter.catbox.moe/x.png''))
      (form_request ''POST'' ''/upload/temp''
         [(js ''file'', FileObj png_file), (js ''time'', Str (js ''5h''))]))) = 400
   \<and> snd (fetch (example_host (answer 200 0 []) (answer 200 0 ''https://litter.catbox.moe/x.png''))
      (form_request ''POST'' ''/upload/temp''
         [(js ''file'', FileObj png_file), (js ''time'', Str (js ''5h''))])) = []
   \<and> body (fst (fetch (example_host (answer 200 0 []) (answer 200 0 ''https://litter.catbox.moe/x.png''))
      (form_request ''POST'' ''/upload/temp''
         [(js ''file'', FileObj png_file), (js ''time'', Str (js ''5h''))])))
       = Some (Obj
               [(js ''error'', Str (js ''Invalid time parameter'')),
                (js ''valid_times'',
                 Arr [Str (js ''1h''), Str (js ''12h''), Str (js ''24h''), Str (js ''72h'')]),
                (js ''provided'', Str (js ''5h''))])
   \<and> snd (fetch (example_host (answer 200 0 []) (answer 503 0 ''Service Unavailable''))
      (form_request ''POST'' ''/upload/temp''
         [(js ''file'', FileObj png_file), (js ''time'', Str [])]))
       = [Post litterbox_api
            [(js ''reqtype'', Str (js ''fileupload'')),
             (js ''time'', Str (js ''1h'')),
             (js ''fileToUpload'', FileObj png_file)]]
   \<and> status (fst (fetch (example_host (answer 200 0 []) (answer 503 0 ''Service Unavailable''))
      (form_request ''POST'' ''/upload/temp''
         [(js ''file'', FileObj png_file), (js ''time'', Str [])]))) \<noteq> 400"
proof -
  have invalid: "status (fst (fetch (example_host (answer 200 0 []) (answer 200 0 ''https://litter.catbox.moe/x.png''))
      (form_request ''POST'' ''/upload/temp''
         [(js ''file'', FileObj png_file), (js ''time'', Str (js ''5h''))]))) = 400
   \<and> snd (fetch (example_host (answer 200 0 []) (answer 200 0 ''https://litter.catbox.moe/x.png''))
      (form_request ''POST'' ''/upload/temp''
         [(js ''file'', FileObj png_file), (js ''time'', Str (js ''5h''))])) = []
   \<and> body (fst (fetch (example_host (answer 200 0 []) (answer 200 0 ''https://litter.catbox.moe/x.png''))
      (form_request ''POST'' ''/upload/temp''
         [(js ''file'', FileObj png_file), (js ''time'', Str (js ''5h''))])))
       = Some (Obj
               [(js ''error'', Str (js ''Invalid time parameter'')),
                (js ''valid_times'',
                 Arr [Str (js ''1h''), Str (js ''12h''), Str (js ''24h''), Str (js ''72h'')]),
                (js ''provided'', Str (js ''5h''))])"
    using invalid_time_is_400
      [where request = "(form_request ''POST'' ''/upload/temp''
         [(js ''file'', FileObj png_file), (js ''time'', Str (js ''5h''))])"
        and formData = "[(js ''file'', FileObj png_file), (js ''time'', Str (js ''5h''))]"
        and time = "Str (js ''5h'')"
        and h = "(example_host (answer 200 0 []) (answer 200 0 ''https://litter.catbox.moe/x.png''))"]
    by (simp add: form_request_def form_get_def js_inj js_Nil_iff)
  have within: "(of_nat (file_size png_file) :: rat) / 1048576 \<le> 200"
    by (simp add: png_file_def)
  have empty: "snd (fetch (example_host (answer 200 0 []) (answer 503 0 ''Service Unavailable''))
      (form_request ''POST'' ''/upload/temp''
         [(js ''file'', FileObj png_file), (js ''time'', Str [])]))
       = [Post litterbox_api
            [(js ''reqtype'', Str (js ''fileupload'')),
             (js ''time'', Str (js ''1h'')),
             (js ''fileToUpload'', FileObj png_file)]]
   \<and> status (fst (fetch (example_host (answer 200 0 []) (answer 503 0 ''Service Unavailable''))
      (form_request ''POST'' ''/upload/temp''
         [(js ''file'', FileObj png_file), (js ''time'', Str [])]))) \<noteq> 400"
    using invalid_time_is_400
      [where request = "(form_request ''POST'' ''/upload/temp''
         [(js ''file'', FileObj png_file), (js ''time'', Str [])])"
        and formData = "[(js ''file'', FileObj png_file), (js ''time'', Str [])]"
        and time = "Str []" and f = png_file
        and h = "(example_host (answer 200 0 []) (answer 503 0 ''Service Unavailable''))"]
      within
    by (simp add: form_request_def form_get_def js_inj)
  from invalid empty show ?thesis by blast
qed

theorem empty_time_counterexample:
  "req_method (form_request ''POST'' ''/upload/temp''
         [(js ''file'', FileObj png_file), (js ''time'', Str [])]) = js ''POST''
   \<and> form_get [(js ''file'', FileObj png_file), (js ''time'', Str [])] (js ''time'') = Str []
   \<and> Str [] \<notin> {Str (js ''1h''), Str (js ''12h''), Str (js ''24h''), Str (js ''72h'')}
   \<and> status (fst (fetch (example_host (answer 200 0 []) (answer 200 0 ''https://litter.catbox.moe/x.png''))
      (form_request ''POST'' ''/upload/temp''
         [(js ''file'', FileObj png_file), (js ''time'', Str [])]))) = 200
   \<and> snd (fetch (example_host (answer 200 0 []) (answer 200 0 ''https://litter.catbox.moe/x.png''))
      (form_request ''POST'' ''/upload/temp''
         [(js ''file'', FileObj png_file), (js ''time'', Str [])]))
     = [Post litterbox_api
          [(js ''reqtype'', Str (js ''fileupload'')), (js ''time'', Str (js ''1h'')),
           (js ''fileToUpload'', FileObj png_file)]]
   \<and> body (fst (fetch (example_host (answer 200 0 []) (answer 200 0 ''https://litter.catbox.moe/x.png''))
      (form_request ''POST'' ''/upload/temp'' [(js ''time'', Str (js ''5h''))])))
     = Some (Obj [(js ''error'', Str (js ''No file provided''))])"
  by (simp add: fetch_def form_request_def js_inj handleUploadTemp_relay snd_relay form_get_def
      png_file_def example_host_def answer_def ok_def js_or_def validTimes_def
      js_Nil_iff Nil_js_iff startsWith_js relay_def status_Response body_Response)

section \<open>The size ceiling\<close>

text \<open>
  C1. A POST whose file has a size in bytes that, divided by 1,048,576, exceeds 200 is
  never uploaded, on any of the three upload paths. Its status is 413 on \<^verbatim>\<open>/upload\<close>;
  on \<^verbatim>\<open>/upload/temp\<close> when the \<^verbatim>\<open>time\<close> value is absent, empty or one of the four
  valid ones (the handler tests \<^verbatim>\<open>time\<close> before the size, so another value is
  answered 400 first); and on \<^verbatim>\<open>/upload/url\<close> once the source has been downloaded,
  where the GET of the source is the only outbound call.
\<close>

theorem oversize_is_413:
  "(req_method request = js ''POST'' \<and> req_pathname request = js ''/upload''
      \<and> req_formData request = Inr formData
      \<and> form_get formData (js ''file'') = FileObj f
      \<and> 200 < (of_nat (file_size f) :: rat) / 1048576
    \<longrightarrow> status (fst (fetch h request)) = 413 \<and> snd (fetch h request) = [])
   \<and> (req_method request = js ''POST'' \<and> req_pathname request = js ''/upload/temp''
      \<and> req_formData request = Inr formData
      \<and> form_get formData (js ''file'') = FileObj f
      \<and> 200 < (of_nat (file_size f) :: rat) / 1048576
    \<longrightarrow> snd (fetch h request) = []
      \<and> (form_get formData (js ''time'')
            \<in> {Null, Str [], Str (js ''1h''), Str (js ''12h''), Str (js ''24h''), Str (js ''72h'')}
          \<longrightarrow> status (fst (fetch h request)) = 413))
   \<and> (req_method request = js ''POST'' \<and> req_pathname request = js ''/upload/url''
      \<and> req_json request = Inr (Obj kvs)
      \<and> map_of kvs (js ''url'') = Some url \<and> truthy url
      \<and> URL_pathname h url = Some urlPath
      \<and> global_fetch h (Get url) = Inr fileResponse \<and> ok fileResponse
      \<and> up_blob fileResponse = Inr blob
      \<and> 200 < (of_nat (blob_size blob) :: rat) / 1048576
    \<longrightarrow> status (fst (fetch h request)) = 413 \<and> snd (fetch h request) = [Get url]
      \<and> upload_calls (snd (fetch h request)) = [])"
proof (intro conjI impI)
  assume a: "req_method request = js ''POST'' \<and> req_pathname request = js ''/upload''
      \<and> req_formData request = Inr formData
      \<and> form_get formData (js ''file'') = FileObj f
      \<and> 200 < (of_nat (file_size f) :: rat) / 1048576"
  then have "fetch h request = (file_too_large (div_MiB (size_of (FileObj f))) corsHeaders, [])"
    by (simp add: fetch_def js_inj handleUpload_relay)
  then show "status (fst (fetch h request)) = 413" and "snd (fetch h request) = []"
    by (simp_all add: file_too_large_def status_Response)
next
  assume a: "req_method request = js ''POST'' \<and> req_pathname request = js ''/upload/temp''
      \<and> req_formData request = Inr formData
      \<and> form_get formData (js ''file'') = FileObj f
      \<and> 200 < (of_nat (file_size f) :: rat) / 1048576"
  then show "snd (fetch h request) = []"
    by (simp add: fetch_def js_inj handleUploadTemp_relay)
  assume "form_get formData (js ''time'')
            \<in> {Null, Str [], Str (js ''1h''), Str (js ''12h''), Str (js ''24h''), Str (js ''72h'')}"
  then have "js_or (form_get formData (js ''time'')) (Str (js ''1h'')) \<in> set validTimes"
    by (auto simp: js_or_def validTimes_def)
  with a have "fetch h request = (file_too_large (div_MiB (size_of (FileObj f))) corsHeaders, [])"
    by (simp add: fetch_def js_inj handleUploadTemp_relay)
  then show "status (fst (fetch h request)) = 413"
    by (simp add: file_too_large_def status_Response)
next
  assume a: "req_method request = js ''POST'' \<and> req_pathname request = js ''/upload/url''
      \<and> req_json request = Inr (Obj kvs)
      \<and> map_of kvs (js ''url'') = Some url \<and> truthy url
      \<and> URL_pathname h url = Some urlPath
      \<and> global_fetch h (Get url) = Inr fileResponse \<and> ok fileResponse
      \<and> up_blob fileResponse = Inr blob
      \<and> 200 < (of_nat (blob_size blob) :: rat) / 1048576"
  then have "fetch h request
      = (file_too_large (div_MiB (Num (of_nat (blob_size blob)))) corsHeaders, [Get url])"
    by (simp add: fetch_def js_inj handleUploadFromUrl_relay destructure_Obj)
  then show "status (fst (fetch h request)) = 413" and "snd (fetch h request) = [Get url]"
    and "upload_calls (snd (fetch h request)) = []"
    by (simp_all add: file_too_large_def status_Response upload_calls_def)
qed


theorem oversize_is_413_witness:
  "(status (fst (fetch (example_host (answer 200 0 []) (answer 200 0 []))
       (form_request ''POST'' ''/upload'' [(js ''file'', FileObj big_file)]))) = 413
    \<and> snd (fetch (example_host (answer 200 0 []) (answer 200 0 []))
       (form_request ''POST'' ''/upload'' [(js ''file'', FileObj big_file)])) = [])
   \<and> (status (fst (fetch (example_host (answer 200 0 []) (answer 200 0 []))
       (form_request ''POST'' ''/upload/temp''
          [(js ''file'', FileObj big_file), (js ''time'', Str (js ''24h''))]))) = 413
    \<and> snd (fetch (example_host (answer 200 0 []) (answer 200 0 []))
       (form_request ''POST'' ''/upload/temp''
          [(js ''file'', FileObj big_file), (js ''time'', Str (js ''24h''))])) = [])
   \<and> (status (fst (fetch (example_host (answer 200 (300 * 1048576) []) (answer 200 0 []))
       (json_request ''POST'' ''/upload/url''
          (Obj [(js ''url'', Str (js ''https://example.com/a.png''))])))) = 413
    \<and> snd (fetch (example_host (answer 200 (300 * 1048576) []) (answer 200 0 []))
       (json_request ''POST'' ''/upload/url''
          (Obj [(js ''url'', Str (js ''https://example.com/a.png''))])))
      = [Get (Str (js ''https://example.com/a.png''))])"
proof -
  have up: "status (fst (fetch (example_host (answer 200 0 []) (answer 200 0 []))
       (form_request ''POST'' ''/upload'' [(js ''file'', FileObj big_file)]))) = 413
    \<and> snd (fetch (example_host (answer 200 0 []) (answer 200 0 []))
       (form_request ''POST'' ''/upload'' [(js ''file'', FileObj big_file)])) = []"
    using oversize_is_413
      [where request = "form_request ''POST'' ''/upload'' [(js ''file'', FileObj big_file)]"
        and formData = "[(js ''file'', FileObj big_file)]" and f = big_file
        and h = "example_host (answer 200 0 []) (answer 200 0 [])"]
    by (simp add: form_request_def form_get_def js_inj big_file_def)
  have temp: "status (fst (fetch (example_host (answer 200 0 []) (answer 200 0 []))
       (form_request ''POST'' ''/upload/temp''
          [(js ''file'', FileObj big_file), (js ''time'', Str (js ''24h''))]))) = 413
    \<and> snd (fetch (example_host (answer 200 0 []) (answer 200 0 []))
       (form_request ''POST'' ''/upload/temp''
          [(js ''file'', FileObj big_file), (js ''time'', Str (js ''24h''))])) = []"
    using oversize_is_413
      [where request = "form_request ''POST'' ''/upload/temp''
          [(js ''file'', FileObj big_file), (js ''time'', Str (js ''24h''))]"
        and formData = "[(js ''file'', FileObj big_file), (js ''time'', Str (js ''24h''))]"
        and f = big_file
        and h = "example_host (answer 200 0 []) (answer 200 0 [])"]
    by (simp add: form_request_def form_get_def js_inj big_file_def)
  have url: "status (fst (fetch (example_host (answer 200 (300 * 1048576) []) (answer 200 0 []))
       (json_request ''POST'' ''/upload/url''
          (Obj [(js ''url'', Str (js ''https://example.com/a.png''))])))) = 413
    \<and> snd (fetch (example_host (answer 200 (300 * 1048576) []) (answer 200 0 []))
       (json_request ''POST'' ''/upload/url''
          (Obj [(js ''url'', Str (js ''https://example.com/a.png''))])))
      = [Get (Str (js ''https://example.com/a.png''))]"
    using oversize_is_413
      [where request = "json_request ''POST'' ''/upload/url''
          (Obj [(js ''url'', Str (js ''https://example.com/a.png''))])"
        and kvs = "[(js ''url'', Str (js ''https://example.com/a.png''))]"
        and url = "Str (js ''https://example.com/a.png'')"
        and urlPath = "js ''/a.png''"
        and fileResponse = "answer 200 (300 * 1048576) []"
        and blob = "\<lparr>blob_size = 300 * 1048576, blob_data = 3\<rparr>"
        and h = "example_host (answer 200 (300 * 1048576) []) (answer 200 0 [])"]
    by (simp add: json_request_def js_inj js_Nil_iff example_host_def answer_def ok_def)
  from up temp url show ?thesis by blast
qed

theorem oversize_invalid_time_counterexample:
  "req_method (form_request ''POST'' ''/upload/temp''
          [(js ''file'', FileObj big_file), (js ''time'', Str (js ''5h''))]) = js ''POST''
   \<and> req_pathname (form_request ''POST'' ''/upload/temp''
          [(js ''file'', FileObj big_file), (js ''time'', Str (js ''5h''))]) = js ''/upload/temp''
   \<and> form_get [(js ''file'', FileObj big_file), (js ''time'', Str (js ''5h''))] (js ''file'')
       = FileObj big_file
   \<and> 200 < (of_nat (file_size big_file) :: rat) / 1048576
   \<and> status (fst (fetch (example_host (answer 200 0 []) (answer 200 0 []))
       (form_request ''POST'' ''/upload/temp''
          [(js ''file'', FileObj big_file), (js ''time'', Str (js ''5h''))]))) = 400"
  by (simp add: fetch_def form_request_def js_inj handleUploadTemp_relay form_get_def
      big_file_def js_or_def validTimes_def js_Nil_iff status_Response)

section \<open>The expiration value of \<^verbatim>\<open>/upload/url\<close>\<close>

lemma url_calls_temporary:
  assumes "req_method request = js ''POST''"
    and "req_json request = Inr (Obj kvs)"
    and "map_of kvs (js ''temporary'') = Some (Bool True)"
    and "map_of kvs (js ''time'') = Some (Str t)"
    and "c \<in> set (upload_calls (snd (handleUploadFromUrl h request hs)))"
  shows "\<exists>file. c = Post litterbox_api
           [(js ''reqtype'', Str (js ''fileupload'')), (js ''time'', Str t),
            (js ''fileToUpload'', file)]"
  using assms
  by (auto simp: handleUploadFromUrl_relay destructure_Obj with_default_def snd_relay
      upload_calls_def url_form_def split: if_splits sum.splits option.splits)

lemma url_400_ignores_time:
  assumes "req_method request = js ''POST''"
    and "req_json request = Inr (Obj kvs)"
    and "status (fst (handleUploadFromUrl h request hs)) = 400"
  shows "handleUploadFromUrl h (request\<lparr>req_json := Inr (Obj ((js ''time'', Str t') # kvs))\<rparr>) hs
           = handleUploadFromUrl h request hs"
  using assms
  by (auto simp: handleUploadFromUrl_relay destructure_Obj js_inj relay_not_400
      split: if_splits sum.splits option.splits)


text \<open>
  C9. \<^verbatim>\<open>handleUploadFromUrl\<close> does not test \<^verbatim>\<open>time\<close> against the four valid
  values. For a POST on \<^verbatim>\<open>/upload/url\<close> with \<^verbatim>\<open>temporary: true\<close> and any string as
  \<^verbatim>\<open>time\<close>: once the source is downloaded and within the size ceiling, the upload
  goes to the temporary upstream with that very string appended as \<^verbatim>\<open>time\<close>; no
  upload call of the request is of another shape; and a 400 response does not depend on
  \<^verbatim>\<open>time\<close>, since the request gets the same outcome with any other string in its
  place.
\<close>

theorem url_time_is_not_validated:
  assumes "req_method request = js ''POST''"
    and "req_pathname request = js ''/upload/url''"
    and "req_json request = Inr (Obj kvs)"
    and "map_of kvs (js ''temporary'') = Some (Bool True)"
    and "map_of kvs (js ''time'') = Some (Str t)"
  shows "(map_of kvs (js ''url'') = Some url \<and> truthy url
        \<and> URL_pathname h url = Some urlPath
        \<and> global_fetch h (Get url) = Inr fileResponse \<and> ok fileResponse
        \<and> up_blob fileResponse = Inr blob
        \<and> (of_nat (blob_size blob) :: rat) / 1048576 \<le> 200
      \<longrightarrow> snd (fetch h request) =
            [Get url,
             Post litterbox_api
               [(js ''reqtype'', Str (js ''fileupload'')),
                (js ''time'', Str t),
                (js ''fileToUpload'',
                 FileObj \<lparr>file_name = str_or (split_pop urlPath) (js ''download''),
                          file_size = blob_size blob,
                          file_type = File_type (header_or (up_content_type fileResponse)
                                                   (js ''application/octet-stream'')),
                          file_data = blob_data blob\<rparr>)]])
    \<and> (\<forall>c\<in>set (upload_calls (snd (fetch h request))).
          \<exists>file. c = Post litterbox_api
                   [(js ''reqtype'', Str (js ''fileupload'')), (js ''time'', Str t),
                    (js ''fileToUpload'', file)])
    \<and> (status (fst (fetch h request)) = 400
      \<longrightarrow> fetch h (request\<lparr>req_json := Inr (Obj ((js ''time'', Str t') # kvs))\<rparr>)
            = fetch h request)"
proof -
  have route: "fetch h request = handleUploadFromUrl h request corsHeaders"
    using assms(1,2) by (simp add: fetch_def js_inj)
  have route': "fetch h (request\<lparr>req_json := Inr (Obj ((js ''time'', Str t') # kvs))\<rparr>)
      = handleUploadFromUrl h
          (request\<lparr>req_json := Inr (Obj ((js ''time'', Str t') # kvs))\<rparr>) corsHeaders"
    using assms(1,2) by (simp add: fetch_def js_inj)
  have sent: "snd (fetch h request) =
            [Get url,
             Post litterbox_api
               [(js ''reqtype'', Str (js ''fileupload'')),
                (js ''time'', Str t),
                (js ''fileToUpload'',
                 FileObj \<lparr>file_name = str_or (split_pop urlPath) (js ''download''),
                          file_size = blob_size blob,
                          file_type = File_type (header_or (up_content_type fileResponse)
                                                   (js ''application/octet-stream'')),
                          file_data = blob_data blob\<rparr>)]]"
    if "map_of kvs (js ''url'') = Some url \<and> truthy url
        \<and> URL_pathname h url = Some urlPath
        \<and> global_fetch h (Get url) = Inr fileResponse \<and> ok fileResponse
        \<and> up_blob fileResponse = Inr blob
        \<and> (of_nat (blob_size blob) :: rat) / 1048576 \<le> 200"
    using that assms
    by (simp add: route handleUploadFromUrl_relay destructure_Obj with_default_def
        snd_relay url_form_def)
  have only: "\<exists>file. c = Post litterbox_api
                   [(js ''reqtype'', Str (js ''fileupload'')), (js ''time'', Str t),
                    (js ''fileToUpload'', file)]"
    if "c \<in> set (upload_calls (snd (fetch h request)))" for c
    using url_calls_temporary [OF assms(1,3,4,5) that [unfolded route]] .
  have same: "fetch h (request\<lparr>req_json := Inr (Obj ((js ''time'', Str t') # kvs))\<rparr>)
            = fetch h request"
    if "status (fst (fetch h request)) = 400"
    unfolding route route'
    using url_400_ignores_time [OF assms(1,3) that [unfolded route]] .
  from sent only same show ?thesis by blast
qed


theorem url_time_is_not_validated_witness:
  "snd (fetch (example_host ((answer 200 (5 * 1048576) [])\<lparr>up_content_type := Some (js ''Image/PNG'')\<rparr>)
                 (answer 200 0 ''https://litter.catbox.moe/abc.png''))
          (json_request ''POST'' ''/upload/url''
             (Obj [(js ''url'', Str (js ''https://example.com/a.png'')),
                   (js ''temporary'', Bool True),
                   (js ''time'', Str (js ''5 minutes''))])))
     = [Get (Str (js ''https://example.com/a.png'')),
        Post litterbox_api
          [(js ''reqtype'', Str (js ''fileupload'')),
           (js ''time'', Str (js ''5 minutes'')),
           (js ''fileToUpload'',
            FileObj \<lparr>file_name = js ''a.png'', file_size = 5 * 1048576,
                     file_type = js ''image/png'', file_data = 3\<rparr>)]]
   \<and> status (fst (fetch (example_host (answer 404 0 []) (answer 200 0 []))
          (json_request ''POST'' ''/upload/url''
             (Obj [(js ''url'', Str (js ''https://example.com/a.png'')),
                   (js ''temporary'', Bool True),
                   (js ''time'', Str (js ''5 minutes''))])))) = 400
   \<and> fetch (example_host (answer 404 0 []) (answer 200 0 []))
          ((json_request ''POST'' ''/upload/url''
             (Obj [(js ''url'', Str (js ''https://example.com/a.png'')),
                   (js ''temporary'', Bool True),
                   (js ''time'', Str (js ''5 minutes''))]))
           \<lparr>req_json := Inr (Obj ((js ''time'', Str (js ''1h''))
                  # [(js ''url'', Str (js ''https://example.com/a.png'')),
                   (js ''temporary'', Bool True),
                   (js ''time'', Str (js ''5 minutes''))]))\<rparr>)
     = fetch (example_host (answer 404 0 []) (answer 200 0 []))
          (json_request ''POST'' ''/upload/url''
             (Obj [(js ''url'', Str (js ''https://example.com/a.png'')),
                   (js ''temporary'', Bool True),
                   (js ''time'', Str (js ''5 minutes''))]))"
proof -
  have bad: "status (fst (fetch (example_host (answer 404 0 []) (answer 200 0 []))
          (json_request ''POST'' ''/upload/url''
             (Obj [(js ''url'', Str (js ''https://example.com/a.png'')),
                   (js ''temporary'', Bool True),
                   (js ''time'', Str (js ''5 minutes''))])))) = 400"
    by (simp add: fetch_def json_request_def js_inj handleUploadFromUrl_relay destructure_Obj
        js_Nil_iff example_host_def answer_def ok_def status_Response)
  have sent: "snd (fetch (example_host ((answer 200 (5 * 1048576) [])\<lparr>up_content_type := Some (js ''Image/PNG'')\<rparr>)
                 (answer 200 0 ''https://litter.catbox.moe/abc.png''))
          (json_request ''POST'' ''/upload/url''
             (Obj [(js ''url'', Str (js ''https://example.com/a.png'')),
                   (js ''temporary'', Bool True),
                   (js ''time'', Str (js ''5 minutes''))])))
     = [Get (Str (js ''https://example.com/a.png'')),
        Post litterbox_api
          [(js ''reqtype'', Str (js ''fileupload'')),
           (js ''time'', Str (js ''5 minutes'')),
           (js ''fileToUpload'',
            FileObj \<lparr>file_name = js ''a.png'', file_size = 5 * 1048576,
                     file_type = js ''image/png'', file_data = 3\<rparr>)]]"
    using url_time_is_not_validated
      [where request = "(json_request ''POST'' ''/upload/url''
             (Obj [(js ''url'', Str (js ''https://example.com/a.png'')),
                   (js ''temporary'', Bool True),
                   (js ''time'', Str (js ''5 minutes''))]))"
        and kvs = "[(js ''url'', Str (js ''https://example.com/a.png'')),
                   (js ''temporary'', Bool True),
                   (js ''time'', Str (js ''5 minutes''))]"
        and t = "js ''5 minutes''"
        and url = "Str (js ''https://example.com/a.png'')"
        and urlPath = "js ''/a.png''"
        and fileResponse = "((answer 200 (5 * 1048576) [])\<lparr>up_content_type := Some (js ''Image/PNG'')\<rparr>)"
        and blob = "\<lparr>blob_size = 5 * 1048576, blob_data = 3\<rparr>"
        and h = "(example_host ((answer 200 (5 * 1048576) [])\<lparr>up_content_type := Some (js ''Image/PNG'')\<rparr>)
                 (answer 200 0 ''https://litter.catbox.moe/abc.png''))"]
    by (simp add: json_request_def js_inj js_Nil_iff example_host_def answer_def ok_def
        split_pop_example File_type_example str_or_def header_or_def)
  have same: "fetch (example_host (answer 404 0 []) (answer 200 0 []))
          ((json_request ''POST'' ''/upload/url''
             (Obj [(js ''url'', Str (js ''https://example.com/a.png'')),
                   (js ''temporary'', Bool True),
                   (js ''time'', Str (js ''5 minutes''))]))
           \<lparr>req_json := Inr (Obj ((js ''time'', Str (js ''1h''))
                  # [(js ''url'', Str (js ''https://example.com/a.png'')),
                   (js ''temporary'', Bool True),
                   (js ''time'', Str (js ''5 minutes''))]))\<rparr>)
     = fetch (example_host (answer 404 0 []) (answer 200 0 []))
          (json_request ''POST'' ''/upload/url''
             (Obj [(js ''url'', Str (js ''https://example.com/a.png'')),
                   (js ''temporary'', Bool True),
                   (js ''time'', Str (js ''5 minutes''))]))"
    using bad url_time_is_not_validated
      [where request = "(json_request ''POST'' ''/upload/url''
             (Obj [(js ''url'', Str (js ''https://example.com/a.png'')),
                   (js ''temporary'', Bool True),
                   (js ''time'', Str (js ''5 minutes''))]))"
        and kvs = "[(js ''url'', Str (js ''https://example.com/a.png'')),
                   (js ''temporary'', Bool True),
                   (js ''time'', Str (js ''5 minutes''))]"
        and t = "js ''5 minutes''" and t' = "js ''1h''"
        and h = "(example_host (answer 404 0 []) (answer 200 0 []))"]
    by (simp add: json_request_def js_inj)
  from sent bad same show ?thesis by blast
qed

end
